theory Spec2Isabelle
  imports Main "HOL-Library.AList" "HOL-Library.Sublist" "HOL-Library.Multiset"
begin

section \<open>JavaScript values\<close>

text \<open>
  The values that travel through the pipeline are JSON documents plus \<open>undefined\<close>.
  Numbers are integers here (no claim depends on fractions). An object is the list of
  its own enumerable entries in the order \<open>Object.entries\<close> yields them; a string is a
  list of characters.
\<close>

datatype json =
    JNull
  | JUndefined
  | JBool bool
  | JNum int
  | JStr string
  | JArr "json list"
  | JObj "(string \<times> json) list"

type_synonym obj = "(string \<times> json) list"

text \<open>\<open>o[k]\<close>: the value of an own property, \<open>undefined\<close> when there is none.\<close>

definition get_prop :: "obj \<Rightarrow> string \<Rightarrow> json" where
  "get_prop kvs k = (case map_of kvs k of None \<Rightarrow> JUndefined | Some v \<Rightarrow> v)"

text \<open>JavaScript truthiness (\<open>if (v)\<close>, \<open>a || b\<close>, \<open>a && b\<close>).\<close>

fun truthy :: "json \<Rightarrow> bool" where
  "truthy JNull = False"
| "truthy JUndefined = False"
| "truthy (JBool b) = b"
| "truthy (JNum n) = (n \<noteq> 0)"
| "truthy (JStr s) = (s \<noteq> [])"
| "truthy (JArr _) = True"
| "truthy (JObj _) = True"

text \<open>
  \<open>Object.assign(target, source)\<close>: every entry of the source is written to the
  target in order; an existing key keeps its place and takes the new value, a new key
  is appended.
\<close>

definition object_assign :: "('k \<times> 'v) list \<Rightarrow> ('k \<times> 'v) list \<Rightarrow> ('k \<times> 'v) list" where
  "object_assign target source = fold (\<lambda>kv acc. AList.update (fst kv) (snd kv) acc) source target"

section \<open>settings.ts: the policy matcher\<close>

record AutoApproveTools =
  tools_all :: bool
  tools_patterns :: "string list option"
  tools_specific :: "string list option"
  tools_exclude :: "string list option"

record AutoApproveSettings =
  enabled :: bool
  tools :: AutoApproveTools
  readOnlyByDefault :: bool

record ResponseLimits =
  limit_maxArrayLength :: int
  limit_maxResponseSize :: int
  limit_summarizeArrays :: bool

record MerakiMCPSettings =
  autoApprove :: "AutoApproveSettings option"
  defaultParams :: "(string \<times> obj) list option"
  responseLimits :: "ResponseLimits option"

text \<open>
  \<open>s.replace(/c/g, r)\<close> for a one-character pattern: every occurrence of the
  character is replaced by the string \<open>r\<close>.
\<close>

definition replace_all :: "char \<Rightarrow> string \<Rightarrow> string \<Rightarrow> string" where
  "replace_all c r s = concat (map (\<lambda>x. if x = c then r else [x]) s)"

text \<open>
  The regular expressions that \<open>matchesPattern\<close> builds are read in a fragment of
  the RegExp syntax: a literal character, \<open>.\<close> (one character that is no line
  terminator), \<open>.*\<close> (any run of such characters) and the escapes \<open>\\[\<close> and
  \<open>\\]\<close>. Every other use of a RegExp metacharacter is outside the fragment and
  parses to \<open>None\<close>; this covers every source on which \<open>new RegExp\<close> throws.
\<close>

datatype rx_item = Lit char | Dot | DotStar

definition rx_special :: "char \<Rightarrow> bool" where
  "rx_special c = (c \<in> set ''^$*+?()[]{}|'')"

fun parse_regexp :: "string \<Rightarrow> rx_item list option" where
  "parse_regexp [] = Some []"
| "parse_regexp (c # cs) =
     (if c = CHR ''.'' then
        (case cs of
           d # ds \<Rightarrow>
             if d = CHR ''*'' then map_option ((#) DotStar) (parse_regexp ds)
             else map_option ((#) Dot) (parse_regexp cs)
         | [] \<Rightarrow> Some [Dot])
      else if c = CHR 0x5C then
        (case cs of
           d # ds \<Rightarrow>
             if d = CHR ''['' \<or> d = CHR '']'' then map_option ((#) (Lit d)) (parse_regexp ds)
             else None
         | [] \<Rightarrow> None)
      else if rx_special c then None
      else map_option ((#) (Lit c)) (parse_regexp cs))"

definition line_terminator :: "char \<Rightarrow> bool" where
  "line_terminator c = (c = CHR 0x0A \<or> c = CHR 0x0D)"

text \<open>\<open>/^...$/.test(s)\<close>: the whole string is matched by the item sequence.\<close>

fun rx_test :: "rx_item list \<Rightarrow> string \<Rightarrow> bool" where
  "rx_test [] s = (s = [])"
| "rx_test (Lit c # r) [] = False"
| "rx_test (Lit c # r) (x # xs) = (x = c \<and> rx_test r xs)"
| "rx_test (Dot # r) [] = False"
| "rx_test (Dot # r) (x # xs) = (\<not> line_terminator x \<and> rx_test r xs)"
| "rx_test (DotStar # r) [] = rx_test r []"
| "rx_test (DotStar # r) (x # xs) =
     (rx_test r (x # xs) \<or> (\<not> line_terminator x \<and> rx_test (DotStar # r) xs))"

definition matchesPattern :: "string \<Rightarrow> string \<Rightarrow> bool option" where
  "matchesPattern toolName pattern =
     (let regexPattern =
            replace_all (CHR '']'') [CHR 0x5C, CHR '']'']
              (replace_all (CHR ''['') [CHR 0x5C, CHR ''['']
                (replace_all (CHR ''?'') ''.''
                  (replace_all (CHR ''*'') ''.*'' pattern)))
      in map_option (\<lambda>regex. rx_test regex toolName) (parse_regexp regexPattern))"

definition toLowerCase :: "string \<Rightarrow> string" where
  "toLowerCase s =
     map (\<lambda>c. let n = (of_char c :: nat) in if 65 \<le> n \<and> n \<le> 90 then char_of (n + 32) else c) s"

definition isReadOnlyTool :: "string \<Rightarrow> bool" where
  "isReadOnlyTool toolName =
     (let readOnlyPrefixes = [''get'', ''list'', ''show'', ''view'', ''read'', ''fetch''];
          readOnlySuffixes = [''_get'', ''_list'', ''_show'', ''_view'', ''_read'', ''_fetch'',
                              ''_status'', ''_statuses''];
          lowerToolName = toLowerCase toolName
      in if list_ex (\<lambda>p. prefix p lowerToolName) readOnlyPrefixes then True
         else if list_ex (\<lambda>s. suffix s lowerToolName) readOnlySuffixes then True
         else if sublist ''_get_'' lowerToolName \<or> sublist ''_list_'' lowerToolName
                 \<or> sublist ''_statuses'' lowerToolName \<or> sublist ''_overview'' lowerToolName
         then True
         else False)"

text \<open>
  The loop over \<open>tools.patterns\<close>: the first matching pattern approves; a pattern
  outside the fragment ends the loop with \<open>None\<close>.
\<close>

fun anyPatternMatches :: "string \<Rightarrow> string list \<Rightarrow> bool option" where
  "anyPatternMatches toolName [] = Some False"
| "anyPatternMatches toolName (pattern # rest) =
     (case matchesPattern toolName pattern of
        None \<Rightarrow> None
      | Some True \<Rightarrow> Some True
      | Some False \<Rightarrow> anyPatternMatches toolName rest)"

text \<open>
  \<open>shouldAutoApprove\<close>; the log lines are left out. \<open>tools.exclude?.includes(n)\<close> and
  \<open>tools.specific?.includes(n)\<close> are false on an absent list.
\<close>

definition includes_opt :: "string list option \<Rightarrow> string \<Rightarrow> bool" where
  "includes_opt l n = (case l of None \<Rightarrow> False | Some xs \<Rightarrow> n \<in> set xs)"

definition shouldAutoApprove :: "MerakiMCPSettings \<Rightarrow> string \<Rightarrow> bool option" where
  "shouldAutoApprove settings toolName =
     (case autoApprove settings of
        None \<Rightarrow> Some False
      | Some aa \<Rightarrow>
          if \<not> enabled aa then Some False
          else if includes_opt (tools_exclude (tools aa)) toolName then Some False
          else if tools_all (tools aa) then Some True
          else if includes_opt (tools_specific (tools aa)) toolName then Some True
          else
            (case anyPatternMatches toolName
                    (case tools_patterns (tools aa) of None \<Rightarrow> [] | Some ps \<Rightarrow> ps) of
               None \<Rightarrow> None
             | Some True \<Rightarrow> Some True
             | Some False \<Rightarrow>
                 if readOnlyByDefault aa \<and> isReadOnlyTool toolName then Some True
                 else Some False))"

text \<open>
  \<open>getDefaultParams\<close>: the loop over \<open>Object.entries(defaultParams)\<close>, then the
  entry keyed by the tool's own name. The table is the list of its entries in the order
  of that loop.
\<close>

fun applyPatternDefaults :: "string \<Rightarrow> (string \<times> obj) list \<Rightarrow> obj \<Rightarrow> obj option" where
  "applyPatternDefaults toolName [] defaults = Some defaults"
| "applyPatternDefaults toolName ((pattern, params) # rest) defaults =
     (case matchesPattern toolName pattern of
        None \<Rightarrow> None
      | Some True \<Rightarrow> applyPatternDefaults toolName rest (object_assign defaults params)
      | Some False \<Rightarrow> applyPatternDefaults toolName rest defaults)"

definition getDefaultParams :: "MerakiMCPSettings \<Rightarrow> string \<Rightarrow> obj option" where
  "getDefaultParams settings toolName =
     (case defaultParams settings of
        None \<Rightarrow> Some []
      | Some dp \<Rightarrow>
          (case applyPatternDefaults toolName dp [] of
             None \<Rightarrow> None
           | Some defaults \<Rightarrow>
               (case map_of dp toolName of
                  None \<Rightarrow> Some defaults
                | Some params \<Rightarrow> Some (object_assign defaults params))))"


text \<open>
  The resolution as the specification words it, for comparison: the parameter objects
  of the matching patterns merged in declaration order, later over earlier, then the
  object keyed by the exact name over all of them.
\<close>

definition spec_defaults :: "string \<Rightarrow> (string \<times> obj) list \<Rightarrow> (string \<rightharpoonup> json)" where
  "spec_defaults toolName dp =
     foldl (++) Map.empty
       (map (\<lambda>e. map_of (snd e)) (filter (\<lambda>e. matchesPattern toolName (fst e) = Some True) dp))
     ++ (case map_of dp toolName of None \<Rightarrow> Map.empty | Some params \<Rightarrow> map_of params)"

text \<open>Two patterns that both match one name, and a default keyed by that name.\<close>

definition scenario_settings :: MerakiMCPSettings where
  "scenario_settings =
     \<lparr> autoApprove = None,
       defaultParams = Some
         [(''*_list'', [(''a'', JNum 1)]),
          (''network_*'', [(''a'', JNum 2)]),
          (''network_clients_list'', [(''a'', JNum 3)])],
       responseLimits = None \<rparr>"

section \<open>response-optimizer.ts: bounding a response\<close>

text \<open>
  An absent boolean option is falsy, so the optional booleans are plain booleans; the
  two numeric ceilings keep their absence, since \<open>n > undefined\<close> is false and
  \<open>slice(0, undefined)\<close> copies the whole array.
\<close>

record OptimizationOptions =
  maxArrayLength :: "int option"
  truncateLongStrings :: bool
  maxStringLength :: "int option"
  removeNullFields :: bool
  compactFormat :: bool

definition DEFAULT_OPTIONS :: OptimizationOptions where
  "DEFAULT_OPTIONS =
     \<lparr> maxArrayLength = Some 100, truncateLongStrings = True, maxStringLength = Some 500,
       removeNullFields = True, compactFormat = True \<rparr>"

text \<open>
  \<open>xs.slice(0, end)\<close>: a negative end counts from the back, an absent end is the
  length.
\<close>

definition slice0 :: "'a list \<Rightarrow> int option \<Rightarrow> 'a list" where
  "slice0 xs end =
     (case end of
        None \<Rightarrow> xs
      | Some e \<Rightarrow> if e < 0 then take (nat (int (length xs) + e)) xs else take (nat e) xs)"

text \<open>
  \<open>s.substring(0, end)\<close>: a negative end counts as 0, an absent end is the length.
\<close>

definition substring0 :: "string \<Rightarrow> int option \<Rightarrow> string" where
  "substring0 s end = (case end of None \<Rightarrow> s | Some n \<Rightarrow> take (nat n) s)"

text \<open>\<open>len > limit\<close> with a limit that may be \<open>undefined\<close>.\<close>

definition exceeds :: "nat \<Rightarrow> int option \<Rightarrow> bool" where
  "exceeds len limit = (case limit of None \<Rightarrow> False | Some m \<Rightarrow> int len > m)"

definition nullish :: "json \<Rightarrow> bool" where
  "nullish v = (v = JNull \<or> v = JUndefined)"

function optimizeResponse :: "OptimizationOptions \<Rightarrow> json \<Rightarrow> json" where
  "optimizeResponse options JNull = JNull"
| "optimizeResponse options JUndefined = JUndefined"
| "optimizeResponse options (JArr xs) =
     (let optimized = map (optimizeResponse options) (slice0 xs (maxArrayLength options))
      in if exceeds (length xs) (maxArrayLength options)
         then JObj [(''data'', JArr optimized),
                    (''_meta'', JObj [(''totalCount'', JNum (int (length xs))),
                                      (''returnedCount'', JNum (int (length optimized))),
                                      (''truncated'', JBool True)])]
         else JArr optimized)"
| "optimizeResponse options (JObj kvs) =
     JObj (map (\<lambda>kv. (fst kv, optimizeResponse options (snd kv)))
             (filter (\<lambda>kv. \<not> (removeNullFields options \<and> nullish (snd kv))) kvs))"
| "optimizeResponse options (JStr s) =
     (if truncateLongStrings options \<and> exceeds (length s) (maxStringLength options)
      then JStr (substring0 s (maxStringLength options) @ ''... [truncated]'')
      else JStr s)"
| "optimizeResponse options (JBool b) = JBool b"
| "optimizeResponse options (JNum n) = JNum n"
  by pat_completeness auto
termination
proof (relation "measure (\<lambda>p. size (snd p))")
  show "wf (measure (\<lambda>p. size (snd p)))" by simp
next
  fix options :: OptimizationOptions and xs :: "json list" and x
  assume "x \<in> set (slice0 xs (maxArrayLength options))"
  then have "x \<in> set xs"
    by (auto simp: slice0_def split: option.splits if_splits dest: in_set_takeD)
  then have "size x \<le> size_list size xs" by (rule size_list_estimation') simp
  then show "((options, x), (options, JArr xs)) \<in> measure (\<lambda>p. size (snd p))" by simp
next
  fix options :: OptimizationOptions and kvs :: "(string \<times> json) list" and kv
  assume "kv \<in> set (filter (\<lambda>kv. \<not> (removeNullFields options \<and> nullish (snd kv))) kvs)"
  then have "kv \<in> set kvs" by simp
  then have "size_prod (\<lambda>_. 0) size kv \<le> size_list (size_prod (\<lambda>_. 0) size) kvs"
    by (rule size_list_estimation') simp
  moreover have "size (snd kv) \<le> size_prod (\<lambda>_. 0) size kv" by (cases kv) simp
  ultimately show "((options, snd kv), (options, JObj kvs)) \<in> measure (\<lambda>p. size (snd p))" by simp
qed


section \<open>Thrown values\<close>

text \<open>
  What a \<open>throw\<close> carries: an \<open>McpError\<close> (code, message, data), the repository's
  \<open>MerakiAPIError\<close> (message, status code, details) and \<open>ValidationError\<close> (field,
  message), and any other \<open>Error\<close> by its name and message. The message of an error
  the engine raises is engine text and is left empty.
\<close>

datatype ErrorCode = InternalError | InvalidParams | InvalidRequest | MethodNotFound

datatype exn =
    McpError ErrorCode string json
  | MerakiAPIError string int json
  | ValidationError string string
  | JsError string string

definition TypeError :: exn where
  "TypeError = JsError ''TypeError'' []"

text \<open>
  \<open>v[k]\<close> on any value: it throws on \<open>null\<close> and \<open>undefined\<close>; arrays and
  strings answer \<open>length\<close> and their indices. Inherited methods are not JSON and are
  read as \<open>undefined\<close>.
\<close>

definition digit_char :: "char \<Rightarrow> bool" where
  "digit_char c = (48 \<le> (of_char c :: nat) \<and> (of_char c :: nat) \<le> 57)"

definition decimal_value :: "string \<Rightarrow> nat" where
  "decimal_value s = foldl (\<lambda>acc c. 10 * acc + ((of_char c :: nat) - 48)) 0 s"

definition array_index :: "string \<Rightarrow> nat option" where
  "array_index k =
     (if k \<noteq> [] \<and> list_all digit_char k \<and> (k = ''0'' \<or> hd k \<noteq> CHR ''0'')
      then Some (decimal_value k) else None)"

fun js_member :: "json \<Rightarrow> string \<Rightarrow> exn + json" where
  "js_member JNull k = Inl TypeError"
| "js_member JUndefined k = Inl TypeError"
| "js_member (JObj kvs) k = Inr (get_prop kvs k)"
| "js_member (JArr xs) k =
     (if k = ''length'' then Inr (JNum (int (length xs)))
      else case array_index k of
             Some i \<Rightarrow> Inr (if i < length xs then xs ! i else JUndefined)
           | None \<Rightarrow> Inr JUndefined)"
| "js_member (JStr s) k =
     (if k = ''length'' then Inr (JNum (int (length s)))
      else case array_index k of
             Some i \<Rightarrow> Inr (if i < length s then JStr [s ! i] else JUndefined)
           | None \<Rightarrow> Inr JUndefined)"
| "js_member (JBool b) k = Inr JUndefined"
| "js_member (JNum n) k = Inr JUndefined"

text \<open>\<open>typeof v === 'object'\<close> (true of \<open>null\<close> as well).\<close>

fun typeof_object :: "json \<Rightarrow> bool" where
  "typeof_object JNull = True"
| "typeof_object (JArr _) = True"
| "typeof_object (JObj _) = True"
| "typeof_object _ = False"

section \<open>response-optimizer.ts: summaries\<close>

text \<open>
  \<open>new Set(values)\<close> keeps the first occurrence of each value. Primitives are equal by
  value; every object and array of a response is a reference of its own, equal to no
  other.
\<close>

fun same_value_zero :: "json \<Rightarrow> json \<Rightarrow> bool" where
  "same_value_zero (JArr _) _ = False"
| "same_value_zero (JObj _) _ = False"
| "same_value_zero a b = (a = b)"

definition unique_values :: "json list \<Rightarrow> json list" where
  "unique_values vs = fold (\<lambda>v acc. if list_ex (same_value_zero v) acc then acc else acc @ [v]) vs []"

text \<open>\<open>data.map(item => item[field])\<close>, which throws where an item is nullish.\<close>

fun map_member :: "json list \<Rightarrow> string \<Rightarrow> exn + json list" where
  "map_member [] field = Inr []"
| "map_member (item # items) field =
     (case js_member item field of
        Inl e \<Rightarrow> Inl e
      | Inr v \<Rightarrow> (case map_member items field of Inl e \<Rightarrow> Inl e | Inr vs \<Rightarrow> Inr (v # vs)))"

text \<open>The \<open>forEach\<close> over the summary fields, writing into \<open>summary.summary\<close>.\<close>

fun summarize_fields :: "json list \<Rightarrow> string list \<Rightarrow> obj \<Rightarrow> exn + obj" where
  "summarize_fields data [] acc = Inr acc"
| "summarize_fields data (field # rest) acc =
     (case map_member data field of
        Inl e \<Rightarrow> Inl e
      | Inr vs \<Rightarrow>
          (let values = filter (\<lambda>v. v \<noteq> JUndefined) vs
           in if length values > 0
              then summarize_fields data rest
                     (AList.update field
                        (JObj [(''uniqueCount'', JNum (int (length (unique_values values)))),
                               (''samples'', JArr (take 5 (unique_values values)))])
                        acc)
              else summarize_fields data rest acc))"

definition createSummaryResponse :: "json \<Rightarrow> string list option \<Rightarrow> exn + json" where
  "createSummaryResponse data summaryFields =
     (case data of
        JArr xs \<Rightarrow>
          if length xs = 0 then Inr data
          else if length xs > 50 then
            (case (case summaryFields of
                     Some names \<Rightarrow>
                       if truthy (hd xs) \<and> typeof_object (hd xs)
                       then summarize_fields xs names []
                       else Inr []
                   | None \<Rightarrow> Inr []) of
               Inl e \<Rightarrow> Inl e
             | Inr summary \<Rightarrow>
                 Inr (JObj [(''totalCount'', JNum (int (length xs))),
                            (''firstItems'', JArr (take 5 xs)),
                            (''summary'', JObj summary)]))
          else Inr data
      | _ \<Rightarrow> Inr data)"

text \<open>
  \<open>formatToolResponse\<close>. \<open>JSON.stringify\<close> is the engine's and is a parameter. The
  first test is the marker test: a truthy \<open>meta\<close>, \<open>_meta\<close> or \<open>_summary\<close> on an
  object.
\<close>

definition has_marker :: "json \<Rightarrow> bool" where
  "has_marker data =
     (truthy data \<and> typeof_object data \<and>
      (case data of
         JObj kvs \<Rightarrow> truthy (get_prop kvs ''meta'') \<or> truthy (get_prop kvs ''_meta'')
                       \<or> truthy (get_prop kvs ''_summary'')
       | _ \<Rightarrow> False))"

definition summary_fields_for :: "string \<Rightarrow> string list option" where
  "summary_fields_for toolName =
     (if toolName = ''network_clients_list''
        then Some [''description'', ''mac'', ''ip'', ''vlan'', ''status'', ''usage'']
      else if toolName = ''organization_devices_list'' \<or> toolName = ''organization_devices_statuses''
        then Some [''name'', ''model'', ''serial'', ''status'', ''networkId'']
      else if toolName = ''organization_devices_availabilities''
        then Some [''serial'', ''status'', ''lastReportedAt'']
      else if toolName = ''network_devices_list''
        then Some [''name'', ''model'', ''serial'', ''status'']
      else None)"

definition large_array :: "json \<Rightarrow> bool" where
  "large_array v = (case v of JArr xs \<Rightarrow> length xs > 30 | _ \<Rightarrow> False)"

definition formatToolResponse :: "(json \<Rightarrow> string) \<Rightarrow> json \<Rightarrow> string \<Rightarrow> exn + string" where
  "formatToolResponse stringify data toolName =
     (if has_marker data then Inr (stringify data)
      else if large_array data then
        map_sum id stringify (createSummaryResponse data (summary_fields_for toolName))
      else if toolName = ''network_events_list'' then
        (case js_member data ''events'' of
           Inl e \<Rightarrow> Inl e
         | Inr events \<Rightarrow>
             if truthy events \<and> large_array events then
               (case createSummaryResponse events
                       (Some [''type'', ''category'', ''occurredAt'', ''description'']) of
                  Inl e \<Rightarrow> Inl e
                | Inr summary \<Rightarrow>
                    (case data of
                       JObj kvs \<Rightarrow> Inr (stringify (JObj (AList.update ''events'' summary kvs)))
                     | _ \<Rightarrow> Inr (stringify (JObj [(''events'', summary)]))))
             else Inr (stringify (optimizeResponse DEFAULT_OPTIONS data)))
      else Inr (stringify (optimizeResponse DEFAULT_OPTIONS data)))"


text \<open>
  The ceiling on array length is meant as a count: the options that carry no negative
  \<open>maxArrayLength\<close>.
\<close>

definition nonneg_limit :: "OptimizationOptions \<Rightarrow> bool" where
  "nonneg_limit options = (case maxArrayLength options of None \<Rightarrow> True | Some m \<Rightarrow> 0 \<le> m)"

text \<open>Small options and payloads on which the properties below are run.\<close>

definition small_options :: OptimizationOptions where
  "small_options =
     \<lparr> maxArrayLength = Some 2, truncateLongStrings = True, maxStringLength = Some 3,
       removeNullFields = True, compactFormat = True \<rparr>"

definition negative_options :: OptimizationOptions where
  "negative_options =
     \<lparr> maxArrayLength = Some (- 1), truncateLongStrings = True, maxStringLength = Some 3,
       removeNullFields = True, compactFormat = True \<rparr>"

definition marked_payload :: json where
  "marked_payload =
     JObj [(''data'', JArr [JNum 1, JNum 2, JNum 3]),
           (''_meta'', JObj [(''totalCount'', JNum 10), (''returnedCount'', JNum 3),
                             (''truncated'', JBool True)])]"


section \<open>Conversions of the language\<close>

text \<open>Decimal notation of an integer, as \<open>String(n)\<close> and template strings write it.\<close>

fun show_nat :: "nat \<Rightarrow> string" where
  "show_nat n = (if n < 10 then [char_of (48 + n)] else show_nat (n div 10) @ [char_of (48 + n mod 10)])"

definition show_int :: "int \<Rightarrow> string" where
  "show_int i = (if i < 0 then CHR ''-'' # show_nat (nat (- i)) else show_nat (nat i))"

definition intercalate :: "string \<Rightarrow> string list \<Rightarrow> string" where
  "intercalate sep xs = (case xs of [] \<Rightarrow> [] | y # ys \<Rightarrow> y @ concat (map (\<lambda>z. sep @ z) ys))"

text \<open>
  \<open>String(v)\<close>; \<open>js_join\<close> is \<open>Array.prototype.join\<close>, which writes \<open>null\<close> and
  \<open>undefined\<close> as the empty string.
\<close>

fun js_tostring :: "json \<Rightarrow> string" where
  "js_tostring JNull = ''null''"
| "js_tostring JUndefined = ''undefined''"
| "js_tostring (JBool b) = (if b then ''true'' else ''false'')"
| "js_tostring (JNum n) = show_int n"
| "js_tostring (JStr s) = s"
| "js_tostring (JArr xs) =
     intercalate '','' (map (\<lambda>x. if x = JNull \<or> x = JUndefined then [] else js_tostring x) xs)"
| "js_tostring (JObj kvs) = ''[object Object]''"

definition js_join :: "json list \<Rightarrow> string \<Rightarrow> string" where
  "js_join xs sep =
     intercalate sep (map (\<lambda>x. if x = JNull \<or> x = JUndefined then [] else js_tostring x) xs)"

text \<open>
  \<open>parseInt(s, 10)\<close>: leading white space is skipped, then an optional sign and the
  longest run of digits are read; \<open>None\<close> is \<open>NaN\<close>.
\<close>

definition white_space :: "char \<Rightarrow> bool" where
  "white_space c = ((of_char c :: nat) \<in> {9, 10, 11, 12, 13, 32})"

definition parseInt :: "string \<Rightarrow> int option" where
  "parseInt s =
     (let t = dropWhile white_space s;
          neg = (t \<noteq> [] \<and> hd t = CHR ''-'');
          u = (if t \<noteq> [] \<and> (hd t = CHR ''-'' \<or> hd t = CHR ''+'') then tl t else t);
          ds = takeWhile digit_char u
      in if ds = [] then None
         else Some (if neg then - int (decimal_value ds) else int (decimal_value ds)))"

text \<open>
  \<open>v > 0\<close> after \<open>ToNumber\<close>. A string is read in plain decimal notation only;
  \<open>None\<close> is \<open>NaN\<close>.
\<close>

definition string_to_number :: "string \<Rightarrow> int option" where
  "string_to_number s =
     (let t = rev (dropWhile white_space (rev (dropWhile white_space s)));
          u = (if t \<noteq> [] \<and> (hd t = CHR ''-'' \<or> hd t = CHR ''+'') then tl t else t)
      in if t = [] then Some 0
         else if u \<noteq> [] \<and> list_all digit_char u
         then Some (if hd t = CHR ''-'' then - int (decimal_value u) else int (decimal_value u))
         else None)"

definition to_number :: "json \<Rightarrow> int option" where
  "to_number v =
     (case v of
        JNum n \<Rightarrow> Some n
      | JBool b \<Rightarrow> Some (if b then 1 else 0)
      | JNull \<Rightarrow> Some 0
      | JUndefined \<Rightarrow> None
      | _ \<Rightarrow> string_to_number (js_tostring v))"

definition greater_than_zero :: "json \<Rightarrow> bool" where
  "greater_than_zero v = (case to_number v of None \<Rightarrow> False | Some n \<Rightarrow> n > 0)"

section \<open>http-client.ts: the dispatcher\<close>

definition MAX_RETRIES :: nat where
  "MAX_RETRIES = 3"

definition INITIAL_BACKOFF_MS :: int where
  "INITIAL_BACKOFF_MS = 1000"

record AxiosRequestConfig =
  req_method :: string
  req_url :: string
  req_params :: json
  req_data :: json

text \<open>
  A response as the dispatcher reads it: the status, the \<open>retry-after\<close> header when
  the response has one, and the body.
\<close>

record AxiosResponse =
  resp_status :: int
  resp_retry_after :: "string option"
  resp_data :: json

text \<open>
  What the transport does with one request: it delivers a response, whatever its status
  (\<open>validateStatus\<close> accepts all), or fails with an error code and a message.
\<close>

datatype transport = Response AxiosResponse | NetworkError string string

text \<open>
  The effects of the dispatcher, in the order they happen: a request handed to the
  transport and a \<open>setTimeout\<close> wait in milliseconds. The state counts the requests
  sent; the upstream service is a function from the number of a request to what the
  transport does with it.
\<close>

datatype effect = HttpRequest AxiosRequestConfig | Delay int

record net =
  sent :: nat
  effects :: "effect list"

definition statusMessages :: "int \<Rightarrow> string option" where
  "statusMessages st =
     (if st = 400 then Some ''Bad Request''
      else if st = 401 then Some ''Unauthorized - Invalid API key''
      else if st = 403 then Some ''Forbidden - Insufficient permissions''
      else if st = 404 then Some ''Not Found''
      else if st = 429 then Some ''Too Many Requests''
      else if st = 500 then Some ''Internal Server Error''
      else if st = 502 then Some ''Bad Gateway''
      else if st = 503 then Some ''Service Unavailable''
      else None)"

text \<open>\<open>d?.k\<close>: \<open>undefined\<close> on a nullish \<open>d\<close>, the member otherwise.\<close>

definition optional_member :: "json \<Rightarrow> string \<Rightarrow> json" where
  "optional_member d k =
     (if nullish d then JUndefined else (case js_member d k of Inl _ \<Rightarrow> JUndefined | Inr v \<Rightarrow> v))"

text \<open>
  \<open>getErrorMessage\<close>. It throws a \<open>TypeError\<close> where \<open>errors\<close> has a positive
  length and is no array, since only arrays have \<open>join\<close>.
\<close>

definition getErrorMessage :: "AxiosResponse \<Rightarrow> exn + string" where
  "getErrorMessage response =
     (let errors = optional_member (resp_data response) ''errors''
      in if greater_than_zero (optional_member errors ''length'') then
           (case errors of JArr es \<Rightarrow> Inr (js_join es '', '') | _ \<Rightarrow> Inl TypeError)
         else if truthy (optional_member (resp_data response) ''error'') then
           Inr (js_tostring (optional_member (resp_data response) ''error''))
         else
           (case resp_data response of
              JStr str \<Rightarrow> Inr str
            | _ \<Rightarrow>
                (case statusMessages (resp_status response) of
                   Some m \<Rightarrow> Inr m
                 | None \<Rightarrow> Inr (''HTTP '' @ show_int (resp_status response) @ '' Error''))))"

definition getRetryAfter :: "AxiosResponse \<Rightarrow> int" where
  "getRetryAfter response =
     (case resp_retry_after response of
        None \<Rightarrow> INITIAL_BACKOFF_MS
      | Some retryAfter \<Rightarrow>
          if retryAfter \<noteq> [] then
            (case parseInt retryAfter of
               Some seconds \<Rightarrow> seconds * 1000
             | None \<Rightarrow> INITIAL_BACKOFF_MS)
          else INITIAL_BACKOFF_MS)"

definition handleErrorResponse :: "AxiosResponse \<Rightarrow> exn + AxiosResponse" where
  "handleErrorResponse response =
     (if resp_status response = 429 then Inr response
      else case getErrorMessage response of
             Inl e \<Rightarrow> Inl e
           | Inr m \<Rightarrow> Inl (MerakiAPIError m (resp_status response) (resp_data response)))"

definition handleNetworkError :: "string \<Rightarrow> string \<Rightarrow> exn" where
  "handleNetworkError code message =
     (if code = ''ECONNABORTED'' then MerakiAPIError ''Request timeout'' 0 JNull
      else if code = ''ENOTFOUND'' then MerakiAPIError ''Network not found'' 0 JNull
      else MerakiAPIError (if message \<noteq> [] then message else ''Network error'') 0
             (JObj [(''code'', JStr code), (''message'', JStr message)]))"

text \<open>
  \<open>this.client.request(config)\<close>: the request leaves through the transport and the
  response interceptors of the constructor run on what comes back.
\<close>

definition client_request ::
  "(nat \<Rightarrow> transport) \<Rightarrow> AxiosRequestConfig \<Rightarrow> net \<Rightarrow> net \<times> (exn + AxiosResponse)" where
  "client_request upstream config s =
     (let s' = \<lparr> sent = sent s + 1, effects = effects s @ [HttpRequest config] \<rparr>
      in case upstream (sent s) of
           NetworkError code message \<Rightarrow> (s', Inl (handleNetworkError code message))
         | Response response \<Rightarrow>
             if resp_status response \<ge> 400 then (s', handleErrorResponse response)
             else (s', Inr response))"

text \<open>
  The \<open>catch\<close> clause of \<open>executeRequest\<close>: a \<open>MerakiAPIError\<close> is thrown on, any
  other error that reaches it is wrapped with status 0.
\<close>

fun exn_json :: "exn \<Rightarrow> json" where
  "exn_json (JsError name message) = JObj [(''name'', JStr name), (''message'', JStr message)]"
| "exn_json (McpError c message d) = JObj [(''name'', JStr ''McpError''), (''message'', JStr message)]"
| "exn_json (MerakiAPIError message st d) =
     JObj [(''name'', JStr ''MerakiAPIError''), (''message'', JStr message)]"
| "exn_json (ValidationError field message) =
     JObj [(''name'', JStr ''ValidationError''), (''message'', JStr message)]"

fun rethrow :: "exn \<Rightarrow> exn" where
  "rethrow (MerakiAPIError message st d) = MerakiAPIError message st d"
| "rethrow e = MerakiAPIError ''Unknown error occurred'' 0 (exn_json e)"

record MerakiApiResponse =
  api_data :: json
  api_retry_after :: "string option"

function executeRequest ::
  "(nat \<Rightarrow> transport) \<Rightarrow> AxiosRequestConfig \<Rightarrow> nat \<Rightarrow> net \<Rightarrow> net \<times> (exn + MerakiApiResponse)" where
  "executeRequest upstream config retryCount s =
     (case client_request upstream config s of
        (s', Inl e) \<Rightarrow> (s', Inl (rethrow e))
      | (s', Inr response) \<Rightarrow>
          if resp_status response = 429 \<and> retryCount < MAX_RETRIES then
            executeRequest upstream config (retryCount + 1)
              (s'\<lparr> effects := effects s' @ [Delay (getRetryAfter response)] \<rparr>)
          else if resp_status response \<ge> 200 \<and> resp_status response < 300 then
            (s', Inr \<lparr> api_data = resp_data response,
                      api_retry_after = resp_retry_after response \<rparr>)
          else
            (case getErrorMessage response of
               Inl e \<Rightarrow> (s', Inl (rethrow e))
             | Inr m \<Rightarrow>
                 (s', Inl (MerakiAPIError m (resp_status response) (resp_data response)))))"
  by pat_completeness auto
termination
  by (relation "measure (\<lambda>(upstream, config, retryCount, s). MAX_RETRIES - retryCount)") auto

text \<open>The four verbs of the client; each starts \<open>executeRequest\<close> with no retry spent.\<close>

definition http_get ::
  "(nat \<Rightarrow> transport) \<Rightarrow> string \<Rightarrow> json \<Rightarrow> net \<Rightarrow> net \<times> (exn + MerakiApiResponse)" where
  "http_get upstream path params =
     executeRequest upstream
       \<lparr> req_method = ''GET'', req_url = path, req_params = params, req_data = JUndefined \<rparr> 0"




text \<open>A service that answers every request with 429 and a hint of two seconds.\<close>

definition rate_limited :: AxiosResponse where
  "rate_limited =
     \<lparr> resp_status = 429, resp_retry_after = Some ''2'',
       resp_data = JObj [(''errors'', JArr [JStr ''Too many requests''])] \<rparr>"

definition server_failure :: AxiosResponse where
  "server_failure =
     \<lparr> resp_status = 500, resp_retry_after = None, resp_data = JNull \<rparr>"

definition some_request :: AxiosRequestConfig where
  "some_request =
     \<lparr> req_method = ''GET'', req_url = ''/organizations'', req_params = JUndefined,
       req_data = JUndefined \<rparr>"

definition idle :: net where
  "idle = \<lparr> sent = 0, effects = [] \<rparr>"


section \<open>organization tools: the composite security-events executor\<close>

text \<open>
  The executor receives the API client as an argument; here it is the client's \<open>get\<close>,
  a function from path, parameters and the state of the network to the new state and
  either the thrown value or the response.
\<close>

type_synonym 'st api_get = "string \<Rightarrow> json \<Rightarrow> 'st \<Rightarrow> 'st \<times> (exn + MerakiApiResponse)"

text \<open>
  \<open>new Date(v).getTime()\<close>, with \<open>None\<close> for \<open>NaN\<close>. \<open>Date.parse\<close> is the engine's
  and is a parameter.
\<close>

definition date_time :: "(string \<Rightarrow> int option) \<Rightarrow> json \<Rightarrow> int option" where
  "date_time date_parse v =
     (case v of
        JUndefined \<Rightarrow> None
      | JNull \<Rightarrow> Some 0
      | JBool b \<Rightarrow> Some (if b then 1 else 0)
      | JNum n \<Rightarrow> if \<bar>n\<bar> \<le> 8640000000000000 then Some n else None
      | JStr str \<Rightarrow> date_parse str
      | _ \<Rightarrow> date_parse (js_tostring v))"

text \<open>The entries that \<open>{...v}\<close> copies.\<close>

definition spread_entries :: "json \<Rightarrow> obj" where
  "spread_entries v =
     (case v of
        JObj kvs \<Rightarrow> kvs
      | JArr xs \<Rightarrow> zip (map show_nat [0..<length xs]) xs
      | JStr str \<Rightarrow> zip (map show_nat [0..<length str]) (map (\<lambda>c. JStr [c]) str)
      | _ \<Rightarrow> [])"

text \<open>\<open>{...event, networkId: network.id, networkName: network.name}\<close>\<close>

definition tag_event :: "json \<Rightarrow> json \<Rightarrow> json \<Rightarrow> json" where
  "tag_event networkId networkName event =
     JObj (AList.update ''networkName'' networkName
            (AList.update ''networkId'' networkId (spread_entries event)))"

text \<open>
  \<open>eventsResponse.data.events?.map(...) || []\<close>: it throws where \<open>data\<close> is nullish
  and where \<open>events\<close> is neither nullish nor an array.
\<close>

definition eventsWithNetwork :: "json \<Rightarrow> json \<Rightarrow> exn + json list" where
  "eventsWithNetwork network data =
     (case js_member data ''events'' of
        Inl e \<Rightarrow> Inl e
      | Inr events \<Rightarrow>
          if nullish events then Inr []
          else (case events of
                  JArr es \<Rightarrow>
                    Inr (map (tag_event (optional_member network ''id'')
                                        (optional_member network ''name'')) es)
                | _ \<Rightarrow> Inl TypeError))"

definition default_security_event_types :: json where
  "default_security_event_types =
     JArr [JStr ''security_event'', JStr ''ids_alerted'', JStr ''content_filtering_blocked'',
           JStr ''malware_blocked'', JStr ''vpn_connectivity_change'', JStr ''firewall_blocked'',
           JStr ''amp_blocked'']"

definition set_if_truthy :: "string \<Rightarrow> json \<Rightarrow> obj \<Rightarrow> obj" where
  "set_if_truthy k v kvs = (if truthy v then AList.update k v kvs else kvs)"

definition eventParams :: "obj \<Rightarrow> json \<Rightarrow> obj" where
  "eventParams params networkId =
     AList.update ''includedEventTypes''
       (if truthy (optional_member (get_prop params ''securityEventTypes'') ''length'')
        then get_prop params ''securityEventTypes''
        else default_security_event_types)
       (set_if_truthy ''timespan'' (get_prop params ''timespan'')
         (set_if_truthy ''t1'' (get_prop params ''t1'')
           (set_if_truthy ''t0'' (get_prop params ''t0'')
             [(''networkId'', networkId),
              (''productType'', JStr ''appliance''),
              (''perPage'', if truthy (get_prop params ''perPage'')
                            then get_prop params ''perPage'' else JNum 100)])))"

text \<open>The body of the \<open>try\<close> for one network.\<close>

definition network_events :: "'st api_get \<Rightarrow> obj \<Rightarrow> json \<Rightarrow> 'st \<Rightarrow> 'st \<times> (exn + json list)" where
  "network_events get params network s =
     (case js_member network ''id'' of
        Inl e \<Rightarrow> (s, Inl e)
      | Inr networkId \<Rightarrow>
          (case get (''/networks/'' @ js_tostring networkId @ ''/events'')
                    (JObj [(''params'', JObj (eventParams params networkId))]) s of
             (s', Inl e) \<Rightarrow> (s', Inl e)
           | (s', Inr eventsResponse) \<Rightarrow> (s', eventsWithNetwork network (api_data eventsResponse))))"

text \<open>The \<open>for\<close> loop: a network whose body throws is passed over by the \<open>catch\<close>.\<close>

fun collect_events ::
  "'st api_get \<Rightarrow> obj \<Rightarrow> json list \<Rightarrow> json list \<Rightarrow> 'st \<Rightarrow> 'st \<times> json list" where
  "collect_events get params [] allSecurityEvents s = (s, allSecurityEvents)"
| "collect_events get params (network # rest) allSecurityEvents s =
     (case network_events get params network s of
        (s', Inl e) \<Rightarrow> collect_events get params rest allSecurityEvents s'
      | (s', Inr events) \<Rightarrow> collect_events get params rest (allSecurityEvents @ events) s')"

text \<open>
  \<open>Array.prototype.sort\<close> with a comparator: a stable sort. The comparator of the
  executor subtracts the time of \<open>a\<close> from the time of \<open>b\<close>; a \<open>NaN\<close> difference
  counts as 0.
\<close>

fun insert_sorted :: "('a \<Rightarrow> 'a \<Rightarrow> int) \<Rightarrow> 'a \<Rightarrow> 'a list \<Rightarrow> 'a list" where
  "insert_sorted cmp x [] = [x]"
| "insert_sorted cmp x (y # ys) =
     (if cmp x y \<le> 0 then x # y # ys else y # insert_sorted cmp x ys)"

definition js_sort :: "('a \<Rightarrow> 'a \<Rightarrow> int) \<Rightarrow> 'a list \<Rightarrow> 'a list" where
  "js_sort cmp xs = foldr (insert_sorted cmp) xs []"

definition occurredAt_time :: "(string \<Rightarrow> int option) \<Rightarrow> json \<Rightarrow> int option" where
  "occurredAt_time date_parse event = date_time date_parse (optional_member event ''occurredAt'')"

definition compare_events :: "(string \<Rightarrow> int option) \<Rightarrow> json \<Rightarrow> json \<Rightarrow> int" where
  "compare_events date_parse a b =
     (case (occurredAt_time date_parse b, occurredAt_time date_parse a) of
        (Some tb, Some ta) \<Rightarrow> tb - ta
      | _ \<Rightarrow> 0)"

text \<open>The end index of \<open>slice(0, v)\<close> for any value: \<open>NaN\<close> counts as 0.\<close>

definition slice_end :: "json \<Rightarrow> int" where
  "slice_end v = (case to_number v of None \<Rightarrow> 0 | Some n \<Rightarrow> n)"

text \<open>\<open>for (const network of networks)\<close> iterates arrays and strings and throws on the rest.\<close>

definition iterate :: "json \<Rightarrow> json list option" where
  "iterate v =
     (case v of
        JArr xs \<Rightarrow> Some xs
      | JStr str \<Rightarrow> Some (map (\<lambda>c. JStr [c]) str)
      | _ \<Rightarrow> None)"

definition paginate :: "obj \<Rightarrow> json list \<Rightarrow> json list" where
  "paginate params allSecurityEvents =
     (if truthy (get_prop params ''perPage'')
      then slice0 allSecurityEvents (Some (slice_end (get_prop params ''perPage'')))
      else allSecurityEvents)"

text \<open>The template \<open>/organizations/${params.organizationId}/networks\<close>.\<close>

definition networks_path :: "obj \<Rightarrow> string" where
  "networks_path params =
     ''/organizations/'' @ js_tostring (get_prop params ''organizationId'') @ ''/networks''"

definition organization_security_events ::
  "'st api_get \<Rightarrow> (string \<Rightarrow> int option) \<Rightarrow> obj \<Rightarrow> 'st \<Rightarrow> 'st \<times> (exn + json)" where
  "organization_security_events get date_parse params s =
     (case get (networks_path params) JUndefined s of
        (s1, Inl e) \<Rightarrow> (s1, Inl e)
      | (s1, Inr networksResponse) \<Rightarrow>
          (case iterate (api_data networksResponse) of
             None \<Rightarrow> (s1, Inl TypeError)
           | Some networks \<Rightarrow>
               (case collect_events get params networks [] s1 of
                  (s2, collected) \<Rightarrow>
                    (let allSecurityEvents =
                           paginate params (js_sort (compare_events date_parse) collected)
                     in (s2, Inr (JObj [(''events'', JArr allSecurityEvents),
                                        (''total'', JNum (int (length allSecurityEvents))),
                                        (''organizationId'', get_prop params ''organizationId'')]))))))"





text \<open>
  The scenario of five networks. The service answers the first request with the list of
  networks and the five that follow with: 404, one event, 500, two events, three events.
  Timestamps are epoch milliseconds.
\<close>

definition scenario_network :: "string \<Rightarrow> json" where
  "scenario_network n = JObj [(''id'', JStr (''N_'' @ n)), (''name'', JStr (''net '' @ n))]"

definition scenario_event :: "int \<Rightarrow> json" where
  "scenario_event t = JObj [(''occurredAt'', JNum t), (''type'', JStr ''ids_alerted'')]"

definition ok_response :: "json \<Rightarrow> transport" where
  "ok_response body = Response \<lparr> resp_status = 200, resp_retry_after = None, resp_data = body \<rparr>"

definition scenario_upstream :: "nat \<Rightarrow> transport" where
  "scenario_upstream n =
     (if n = 0 then ok_response (JArr (map scenario_network [''1'', ''2'', ''3'', ''4'', ''5'']))
      else if n = 1 then Response \<lparr> resp_status = 404, resp_retry_after = None, resp_data = JNull \<rparr>
      else if n = 2 then ok_response (JObj [(''events'', JArr [scenario_event 40])])
      else if n = 3 then Response server_failure
      else if n = 4 then ok_response (JObj [(''events'', JArr [scenario_event 60, scenario_event 10])])
      else if n = 5 then ok_response
             (JObj [(''events'', JArr [scenario_event 30, scenario_event 50, scenario_event 20])])
      else NetworkError ''ECONNABORTED'' ''timeout'')"

definition scenario_params :: obj where
  "scenario_params = [(''organizationId'', JStr ''42'')]"

definition scenario_tagged :: "string \<Rightarrow> int \<Rightarrow> json" where
  "scenario_tagged n t =
     JObj [(''occurredAt'', JNum t), (''type'', JStr ''ids_alerted''),
           (''networkId'', JStr (''N_'' @ n)), (''networkName'', JStr (''net '' @ n))]"


section \<open>base-tool.ts: the execution engine\<close>



































section \<open>Properties of the policy matcher\<close>

lemma map_of_object_assign:
  "map_of (object_assign target source) = map_of target ++ map_of (rev source)"
  unfolding object_assign_def
proof (induction source arbitrary: target)
  case Nil
  show ?case by simp
next
  case (Cons kv source)
  have "map_of (fold (\<lambda>kv acc. AList.update (fst kv) (snd kv) acc) source
                 (AList.update (fst kv) (snd kv) target))
        = map_of (AList.update (fst kv) (snd kv) target) ++ map_of (rev source)"
    by (rule Cons.IH)
  also have "\<dots> = map_of target ++ (map_of [kv] ++ map_of (rev source))"
    by (cases kv) (simp add: update_conv' map_add_upd_left fun_eq_iff map_add_def split: option.splits)
  finally show ?case by simp
qed

lemma map_of_rev_distinct_keys:
  assumes "distinct (map fst xs)"
  shows "map_of (rev xs) = map_of xs"
proof -
  from assms have "distinct (map fst (rev xs))" by (simp add: rev_map[symmetric])
  from map_of_inject_set[OF this assms] show ?thesis by simp
qed

lemma applyPatternDefaults_map:
  assumes "\<forall>e \<in> set dp. matchesPattern toolName (fst e) \<noteq> None"
      and "\<forall>e \<in> set dp. distinct (map fst (snd e))"
  shows "\<exists>d. applyPatternDefaults toolName dp acc = Some d \<and>
             map_of d = foldl (++) (map_of acc)
               (map (\<lambda>e. map_of (snd e)) (filter (\<lambda>e. matchesPattern toolName (fst e) = Some True) dp))"
  using assms
proof (induction dp arbitrary: acc)
  case Nil
  show ?case by simp
next
  case (Cons e dp)
  obtain p ps where e: "e = (p, ps)" by (cases e)
  from Cons.prems obtain b where b: "matchesPattern toolName p = Some b" by (auto simp: e)
  have d: "distinct (map fst ps)" using Cons.prems by (simp add: e)
  have rest: "\<forall>e \<in> set dp. matchesPattern toolName (fst e) \<noteq> None"
       "\<forall>e \<in> set dp. distinct (map fst (snd e))" using Cons.prems by simp_all
  show ?case
  proof (cases b)
    case True
    from Cons.IH[OF rest, of "object_assign acc ps"] show ?thesis
      by (simp add: e b True map_of_object_assign map_of_rev_distinct_keys d)
  next
    case False
    from Cons.IH[OF rest, of acc] show ?thesis
      by (simp add: e b False)
  qed
qed

text \<open>
  C7. A tool name on the exclude list is never auto-approved: \<open>shouldAutoApprove\<close>
  answers false whatever the blanket flag, the exact-name list, the pattern list and the
  read-only toggle hold.
\<close>

theorem exclude_overrides:
  assumes "autoApprove settings = Some aa"
      and "tools_exclude (tools aa) = Some ex"
      and "toolName \<in> set ex"
  shows "shouldAutoApprove settings toolName = Some False"
  using assms by (simp add: shouldAutoApprove_def includes_opt_def)

theorem exclude_overrides_witness:
  "shouldAutoApprove
     \<lparr> autoApprove = Some
         \<lparr> enabled = True,
           tools = \<lparr> tools_all = True, tools_patterns = Some [''*''],
                     tools_specific = Some [''organization_list''],
                     tools_exclude = Some [''network_delete'', ''organization_list''] \<rparr>,
           readOnlyByDefault = True \<rparr>,
       defaultParams = None, responseLimits = None \<rparr>
     ''organization_list'' = Some False"
  by (rule exclude_overrides
        [where aa = "\<lparr> enabled = True,
           tools = \<lparr> tools_all = True, tools_patterns = Some [''*''],
                     tools_specific = Some [''organization_list''],
                     tools_exclude = Some [''network_delete'', ''organization_list''] \<rparr>,
           readOnlyByDefault = True \<rparr>"
           and ex = "[''network_delete'', ''organization_list'']"]) simp_all

text \<open>
  C10. While the master switch \<open>autoApprove.enabled\<close> is off, \<open>shouldAutoApprove\<close>
  answers false for every tool name, also for a name on the exact-name list, a name that
  matches a pattern and a name the read-only heuristic would accept.
\<close>

theorem disabled_never_approves:
  assumes "autoApprove settings = Some aa"
      and "\<not> enabled aa"
  shows "shouldAutoApprove settings toolName = Some False"
  using assms by (simp add: shouldAutoApprove_def)

theorem disabled_never_approves_witness:
  "isReadOnlyTool ''organization_list'' \<and>
   matchesPattern ''organization_list'' ''*_list'' = Some True \<and>
   shouldAutoApprove
     \<lparr> autoApprove = Some
         \<lparr> enabled = False,
           tools = \<lparr> tools_all = True, tools_patterns = Some [''*_list''],
                     tools_specific = Some [''organization_list''],
                     tools_exclude = Some [] \<rparr>,
           readOnlyByDefault = True \<rparr>,
       defaultParams = None, responseLimits = None \<rparr>
     ''organization_list'' = Some False"
proof -
  have a: "isReadOnlyTool ''organization_list''" by code_simp
  have b: "matchesPattern ''organization_list'' ''*_list'' = Some True" by code_simp
  have c: "shouldAutoApprove
     \<lparr> autoApprove = Some
         \<lparr> enabled = False,
           tools = \<lparr> tools_all = True, tools_patterns = Some [''*_list''],
                     tools_specific = Some [''organization_list''],
                     tools_exclude = Some [] \<rparr>,
           readOnlyByDefault = True \<rparr>,
       defaultParams = None, responseLimits = None \<rparr>
     ''organization_list'' = Some False"
    by (rule disabled_never_approves
          [where aa = "\<lparr> enabled = False,
           tools = \<lparr> tools_all = True, tools_patterns = Some [''*_list''],
                     tools_specific = Some [''organization_list''],
                     tools_exclude = Some [] \<rparr>,
           readOnlyByDefault = True \<rparr>"]) simp_all
  from a b c show ?thesis by blast
qed

text \<open>
  C8. Where every pattern of the table can be compiled and every parameter object has
  distinct keys, \<open>getDefaultParams\<close> returns an object whose entries are those of the
  specification's resolution: the objects of the matching patterns merged in declaration
  order, later over earlier, then the object keyed by the exact name over them. So a key
  that the exact-name object carries resolves to that object's value.
\<close>

theorem getDefaultParams_resolution:
  assumes "defaultParams settings = Some dp"
      and "\<forall>e \<in> set dp. matchesPattern toolName (fst e) \<noteq> None"
      and "\<forall>e \<in> set dp. distinct (map fst (snd e))"
  shows "\<exists>d. getDefaultParams settings toolName = Some d \<and> map_of d = spec_defaults toolName dp
             \<and> (\<forall>params a v. map_of dp toolName = Some params \<and> map_of params a = Some v
                    \<longrightarrow> get_prop d a = v)"
proof -
  from applyPatternDefaults_map[OF assms(2,3), of "[]"] obtain d0 where
    d0: "applyPatternDefaults toolName dp [] = Some d0"
        "map_of d0 = foldl (++) Map.empty
               (map (\<lambda>e. map_of (snd e)) (filter (\<lambda>e. matchesPattern toolName (fst e) = Some True) dp))"
    by auto
  show ?thesis
  proof (cases "map_of dp toolName")
    case None
    then show ?thesis
      by (simp add: getDefaultParams_def assms(1) d0 spec_defaults_def)
  next
    case (Some params)
    then have "(toolName, params) \<in> set dp" by (rule map_of_SomeD)
    with assms(3) have "distinct (map fst params)" by fastforce
    then have m: "map_of (object_assign d0 params) = map_of d0 ++ map_of params"
      by (simp add: map_of_object_assign map_of_rev_distinct_keys)
    show ?thesis
      by (simp add: getDefaultParams_def assms(1) d0 Some spec_defaults_def m get_prop_def
            del: map_of_eq_Some_iff)
  qed
qed

lemma scenario_pattern_1: "matchesPattern ''network_clients_list'' ''*_list'' = Some True"
  by code_simp

lemma scenario_pattern_2: "matchesPattern ''network_clients_list'' ''network_*'' = Some True"
  by code_simp

lemma scenario_pattern_3:
  "matchesPattern ''network_clients_list'' ''network_clients_list'' = Some True"
  by code_simp

theorem getDefaultParams_resolution_witness:
  "matchesPattern ''network_clients_list'' ''*_list'' = Some True \<and>
   matchesPattern ''network_clients_list'' ''network_*'' = Some True \<and>
   (\<exists>d. getDefaultParams scenario_settings ''network_clients_list'' = Some d \<and>
        get_prop d ''a'' = JNum 3)"
proof -
  let ?dp = "[(''*_list'', [(''a'', JNum 1)]), (''network_*'', [(''a'', JNum 2)]),
          (''network_clients_list'', [(''a'', JNum 3)])]"
  have a: "defaultParams scenario_settings = Some ?dp" by (simp add: scenario_settings_def)
  have b: "\<forall>e \<in> set ?dp. matchesPattern ''network_clients_list'' (fst e) \<noteq> None"
    by (auto simp: scenario_pattern_1 scenario_pattern_2 scenario_pattern_3)
  have c: "\<forall>e \<in> set ?dp. distinct (map fst (snd e))" by simp
  from getDefaultParams_resolution[OF a b c] obtain d where
    d: "getDefaultParams scenario_settings ''network_clients_list'' = Some d"
       "\<forall>params a v. map_of ?dp ''network_clients_list'' = Some params \<and> map_of params a = Some v
                    \<longrightarrow> get_prop d a = v" by blast
  from d(2) have "get_prop d ''a'' = JNum 3" by simp
  with d(1) scenario_pattern_1 scenario_pattern_2 show ?thesis by blast
qed

section \<open>Properties of the bounding engine\<close>

lemma optimizeResponse_nullish: "nullish (optimizeResponse options x) = nullish x"
  by (cases x) (simp_all add: nullish_def Let_def)

lemma optimizeResponse_twice:
  "nonneg_limit options \<Longrightarrow>
   optimizeResponse options (optimizeResponse options x) = optimizeResponse options x"
proof (induction options x rule: optimizeResponse.induct)
  case (3 options xs)
  let ?ys = "slice0 xs (maxArrayLength options)"
  let ?opt = "map (optimizeResponse options) ?ys"
  have IH: "map (optimizeResponse options) ?opt = ?opt"
    using "3.IH" "3.prems" by simp
  have len: "\<not> exceeds (length ?opt) (maxArrayLength options)"
    using "3.prems" by (auto simp: exceeds_def slice0_def nonneg_limit_def split: option.splits)
  have sl: "slice0 ?opt (maxArrayLength options) = ?opt"
    using "3.prems" by (auto simp: slice0_def nonneg_limit_def split: option.splits)
  have arr: "optimizeResponse options (JArr ?opt) = JArr ?opt"
    using len sl IH by (simp add: Let_def)
  have v: "optimizeResponse options (JArr xs) =
       (if exceeds (length xs) (maxArrayLength options)
         then JObj [(''data'', JArr ?opt),
                    (''_meta'', JObj [(''totalCount'', JNum (int (length xs))),
                                      (''returnedCount'', JNum (int (length ?opt))),
                                      (''truncated'', JBool True)])]
         else JArr ?opt)"
    by (simp add: Let_def)
  show ?case
    unfolding v using arr by (simp add: nullish_def del: optimizeResponse.simps(3))
next
  case (4 options kvs)
  let ?P = "\<lambda>kv. \<not> (removeNullFields options \<and> nullish (snd kv))"
  let ?g = "\<lambda>kv. (fst kv, optimizeResponse options (snd kv))"
  have f: "filter ?P (map ?g (filter ?P kvs)) = map ?g (filter ?P kvs)"
    by (simp add: filter_map o_def optimizeResponse_nullish)
  have m: "map ?g (map ?g (filter ?P kvs)) = map ?g (filter ?P kvs)"
    using "4.IH" "4.prems" by simp
  show ?case using f m by simp
next
  case (5 options s)
  show ?case
    by (auto simp: exceeds_def substring0_def split: option.splits)
qed simp_all

text \<open>
  C2, as the code has it. With a ceiling \<open>M \<ge> 0\<close>, an array longer than \<open>M\<close> comes
  back as \<open>{data, _meta}\<close>: \<open>data\<close> holds the first \<open>M\<close> items, each bounded in turn,
  and \<open>_meta\<close> is \<open>{totalCount = length, returnedCount = M, truncated = true}\<close>. An
  array of at most \<open>M\<close> items comes back as the array of its items, each bounded in
  turn, with no metadata around it; it equals the input when bounding changes no item.
\<close>

theorem optimizeResponse_array:
  assumes "maxArrayLength options = Some M"
      and "0 \<le> M"
  shows "(int (length xs) > M \<longrightarrow>
            optimizeResponse options (JArr xs) =
              JObj [(''data'', JArr (map (optimizeResponse options) (take (nat M) xs))),
                    (''_meta'', JObj [(''totalCount'', JNum (int (length xs))),
                                      (''returnedCount'', JNum M),
                                      (''truncated'', JBool True)])])
       \<and> (int (length xs) \<le> M \<longrightarrow>
            optimizeResponse options (JArr xs) = JArr (map (optimizeResponse options) xs))
       \<and> (int (length xs) \<le> M \<and> (\<forall>x \<in> set xs. optimizeResponse options x = x) \<longrightarrow>
            optimizeResponse options (JArr xs) = JArr xs)"
  using assms by (auto simp: Let_def exceeds_def slice0_def map_idI)

theorem optimizeResponse_array_witness:
  "optimizeResponse small_options (JArr [JNum 1, JStr ''abcdef'', JNum 3]) =
     JObj [(''data'', JArr [JNum 1, JStr ''abc... [truncated]'']),
           (''_meta'', JObj [(''totalCount'', JNum 3), (''returnedCount'', JNum 2),
                             (''truncated'', JBool True)])]
   \<and> optimizeResponse small_options (JArr [JNum 1, JObj [(''a'', JNull)]]) = JArr [JNum 1, JObj []]
   \<and> optimizeResponse small_options (JArr [JNum 1, JNum 2]) = JArr [JNum 1, JNum 2]"
proof -
  have m: "maxArrayLength small_options = Some 2" by (simp add: small_options_def)
  have z: "(0::int) \<le> 2" by simp
  from optimizeResponse_array[OF m z, of "[JNum 1, JStr ''abcdef'', JNum 3]"]
       optimizeResponse_array[OF m z, of "[JNum 1, JObj [(''a'', JNull)]]"]
       optimizeResponse_array[OF m z, of "[JNum 1, JNum 2]"]
  show ?thesis
    by (simp add: small_options_def exceeds_def substring0_def nullish_def
          del: optimizeResponse.simps(3))
qed

theorem optimizeResponse_array_counterexample:
  "maxArrayLength DEFAULT_OPTIONS = Some 100 \<and>
   int (length [JObj [(''a'', JNull)]]) \<le> 100 \<and>
   optimizeResponse DEFAULT_OPTIONS (JArr [JObj [(''a'', JNull)]]) \<noteq> JArr [JObj [(''a'', JNull)]]"
  by (simp add: DEFAULT_OPTIONS_def exceeds_def slice0_def nullish_def)

text \<open>
  C3, as the code has it. For every input and every option set whose array ceiling is
  absent or not negative, \<open>optimizeResponse\<close> applied twice equals \<open>optimizeResponse\<close>
  applied once. The marker is tested by \<open>formatToolResponse\<close> only: a payload with a
  truthy \<open>meta\<close>, \<open>_meta\<close> or \<open>_summary\<close> is serialised as it is.
\<close>

theorem bounding_idempotent:
  "(nonneg_limit options \<longrightarrow>
      optimizeResponse options (optimizeResponse options x) = optimizeResponse options x)
   \<and> (has_marker data \<longrightarrow> formatToolResponse stringify data toolName = Inr (stringify data))"
  by (simp add: optimizeResponse_twice formatToolResponse_def)

theorem bounding_idempotent_witness:
  "nonneg_limit small_options
   \<and> optimizeResponse small_options (JArr [JNum 1, JStr ''abcdef'', JNum 3]) \<noteq>
       JArr [JNum 1, JStr ''abcdef'', JNum 3]
   \<and> optimizeResponse small_options
       (optimizeResponse small_options (JArr [JNum 1, JStr ''abcdef'', JNum 3])) =
     optimizeResponse small_options (JArr [JNum 1, JStr ''abcdef'', JNum 3])
   \<and> has_marker marked_payload
   \<and> formatToolResponse (\<lambda>v. ''{}'') marked_payload ''network_clients_list'' = Inr ''{}''"
proof -
  have n: "nonneg_limit small_options" by (simp add: nonneg_limit_def small_options_def)
  have c: "optimizeResponse small_options (JArr [JNum 1, JStr ''abcdef'', JNum 3]) \<noteq>
       JArr [JNum 1, JStr ''abcdef'', JNum 3]"
    by (simp add: small_options_def exceeds_def slice0_def)
  have h: "has_marker marked_payload"
    by (simp add: has_marker_def marked_payload_def get_prop_def)
  from bounding_idempotent[of small_options "JArr [JNum 1, JStr ''abcdef'', JNum 3]"
         marked_payload "\<lambda>v. ''{}''" "''network_clients_list''"] n c h
  show ?thesis by blast
qed

theorem marked_payload_counterexample:
  "has_marker marked_payload
   \<and> optimizeResponse small_options marked_payload \<noteq> marked_payload
   \<and> optimizeResponse negative_options
         (optimizeResponse negative_options (JArr [JNum 1, JNum 2, JNum 3])) \<noteq>
       optimizeResponse negative_options (JArr [JNum 1, JNum 2, JNum 3])"
  by (simp add: has_marker_def marked_payload_def get_prop_def small_options_def
        negative_options_def exceeds_def slice0_def nullish_def)

section \<open>Properties of the dispatcher\<close>



lemma executeRequest_error_status:
  assumes "upstream (sent s) = Response r"
      and "resp_status r \<ge> 400"
      and "resp_status r \<noteq> 429"
  shows "executeRequest upstream config retryCount s =
           (\<lparr> sent = Suc (sent s), effects = effects s @ [HttpRequest config] \<rparr>,
            case getErrorMessage r of
              Inl e \<Rightarrow> Inl (rethrow e)
            | Inr m \<Rightarrow> Inl (MerakiAPIError m (resp_status r) (resp_data r)))"
  using assms
  by (subst executeRequest.simps)
     (simp add: client_request_def handleErrorResponse_def Let_def split: sum.splits)





lemma rate_limited_run:
  "executeRequest (\<lambda>_. Response rate_limited) some_request 0 idle =
     (\<lparr> sent = 4,
        effects = [HttpRequest some_request, Delay 2000, HttpRequest some_request, Delay 2000,
                   HttpRequest some_request, Delay 2000, HttpRequest some_request] \<rparr>,
      Inl (MerakiAPIError ''Too many requests'' 429 (resp_data rate_limited)))"
  by code_simp

lemma server_failure_run:
  "executeRequest (\<lambda>_. Response server_failure) some_request 0 idle =
     (\<lparr> sent = 1, effects = [HttpRequest some_request] \<rparr>,
      Inl (MerakiAPIError ''Internal Server Error'' 500 JNull))"
  by code_simp



text \<open>
  C6, as the code has it. A response with a status of 400 or more other than 429, a 5xx
  as well as a 4xx, ends the call at once: one request, no wait, and an error, which is
  the \<open>MerakiAPIError\<close> with the status and body of the response where its message can
  be read. This holds whatever the retry count is.
\<close>

theorem error_status_terminal:
  assumes "upstream (sent s) = Response r"
      and "resp_status r \<ge> 400"
      and "resp_status r \<noteq> 429"
  shows "\<exists>e. executeRequest upstream config retryCount s =
               (\<lparr> sent = sent s + 1, effects = effects s @ [HttpRequest config] \<rparr>, Inl e)
             \<and> (\<forall>m. getErrorMessage r = Inr m \<longrightarrow>
                    e = MerakiAPIError m (resp_status r) (resp_data r))"
  using executeRequest_error_status
          [where upstream = upstream and s = s and r = r and config = config
             and retryCount = retryCount] assms
  by (simp del: executeRequest.simps split: sum.splits)

theorem error_status_terminal_witness:
  "resp_status server_failure = 500 \<and>
   executeRequest (\<lambda>_. Response server_failure) some_request 0 idle =
     (\<lparr> sent = 1, effects = [HttpRequest some_request] \<rparr>,
      Inl (MerakiAPIError ''Internal Server Error'' 500 JNull))"
proof -
  have st: "resp_status server_failure = 500" by (simp add: server_failure_def)
  have m: "getErrorMessage server_failure = Inr ''Internal Server Error''" by code_simp
  from error_status_terminal
         [where upstream = "\<lambda>_. Response server_failure" and s = idle and r = server_failure
            and config = some_request and retryCount = 0] st m
  show ?thesis
    by (auto simp: idle_def server_failure_def simp del: executeRequest.simps)
qed

theorem server_error_retry_counterexample:
  "resp_status server_failure = 500 \<and> resp_status rate_limited = 429 \<and>
   effects (fst (executeRequest (\<lambda>_. Response server_failure) some_request 0 idle)) =
     [HttpRequest some_request] \<and>
   effects (fst (executeRequest (\<lambda>_. Response rate_limited) some_request 0 idle)) =
     [HttpRequest some_request, Delay 2000, HttpRequest some_request, Delay 2000,
      HttpRequest some_request, Delay 2000, HttpRequest some_request]"
  by (simp add: rate_limited_run server_failure_run del: executeRequest.simps)
     (simp add: rate_limited_def server_failure_def)


section \<open>Properties of the composite executor\<close>



















lemma scenario_paged_result:
  "snd (organization_security_events (http_get scenario_upstream) (\<lambda>_. None)
          ((''perPage'', JNum 3) # scenario_params) idle) =
   Inr (JObj [(''events'',
               JArr [scenario_tagged ''4'' 60, scenario_tagged ''5'' 50, scenario_tagged ''2'' 40]),
              (''total'', JNum 3),
              (''organizationId'', JStr ''42'')])"
  by code_simp



section \<open>Properties of the execution engine\<close>






end
